theory Spec2Isabelle
  imports Complex_Main
begin

section \<open>Strings and character classes\<close>

text \<open>
  A JavaScript string is a sequence of UTF-16 code units. The router matches regular
  expressions against user text and workspace files, so texts are lists of code units
  (an emoji is a surrogate pair, two code units above 55295). Configuration words that
  the code only compares with ASCII literals (roles, preferences, reasons, tags,
  provider names) are HOL strings. \<open>js\<close> turns an ASCII literal into a text.
\<close>

type_synonym jsstring = "nat list"

definition js :: "string \<Rightarrow> jsstring" where
  "js s = map of_char s"

text \<open>
  The operator \<open>??\<close>: \<open>orDefault\<close> when the right side is always a value, \<open>orElse\<close>
  when it may be absent too.
\<close>

definition orDefault :: "'a option \<Rightarrow> 'a \<Rightarrow> 'a" where
  "orDefault a d = (case a of None \<Rightarrow> d | Some x \<Rightarrow> x)"

definition orElse :: "'a option \<Rightarrow> 'a option \<Rightarrow> 'a option" where
  "orElse a b = (case a of None \<Rightarrow> b | Some x \<Rightarrow> Some x)"

text \<open>The class \<open>\s\<close> of ECMAScript (WhiteSpace and LineTerminator); \<open>trim\<close> strips the same set.\<close>

definition is_space :: "nat \<Rightarrow> bool" where
  "is_space c = (c = 9 \<or> c = 10 \<or> c = 11 \<or> c = 12 \<or> c = 13 \<or> c = 32 \<or> c = 160
     \<or> c = 5760 \<or> (8192 \<le> c \<and> c \<le> 8202) \<or> c = 8232 \<or> c = 8233 \<or> c = 8239
     \<or> c = 8287 \<or> c = 12288 \<or> c = 65279)"

text \<open>Line terminators: the characters that \<open>.\<close> does not match.\<close>

definition is_line_terminator :: "nat \<Rightarrow> bool" where
  "is_line_terminator c = (c = 10 \<or> c = 13 \<or> c = 8232 \<or> c = 8233)"

text \<open>The class \<open>\w\<close>: without the \<open>u\<close> flag it is \<open>[A-Za-z0-9_]\<close>, also under \<open>i\<close>.\<close>

definition is_word_char :: "nat \<Rightarrow> bool" where
  "is_word_char c = ((48 \<le> c \<and> c \<le> 57) \<or> (65 \<le> c \<and> c \<le> 90) \<or> c = 95 \<or> (97 \<le> c \<and> c \<le> 122))"

definition is_ascii_letter :: "nat \<Rightarrow> bool" where
  "is_ascii_letter c = ((65 \<le> c \<and> c \<le> 90) \<or> (97 \<le> c \<and> c \<le> 122))"

definition to_upper :: "nat \<Rightarrow> nat" where
  "to_upper c = (if 97 \<le> c \<and> c \<le> 122 then c - 32 else c)"

text \<open>
  Comparing a pattern character \<open>p\<close> with an input code unit \<open>c\<close>. Every literal of
  the source's regular expressions is ASCII. Under the \<open>i\<close> flag (without \<open>u\<close>) both
  sides are canonicalised by upper-casing, and a code unit from 128 on is never folded
  into ASCII, so an ASCII pattern character matches ASCII input only.
\<close>

definition ch_eq :: "bool \<Rightarrow> nat \<Rightarrow> nat \<Rightarrow> bool" where
  "ch_eq ic p c = (c = p \<or> (ic \<and> p < 128 \<and> c < 128 \<and> to_upper p = to_upper c))"

section \<open>The fragment of regular expressions the source uses\<close>

datatype cclass = Space | WordCh | AnyCh | OneOf jsstring | NoneOf jsstring

fun in_class :: "cclass \<Rightarrow> nat \<Rightarrow> bool" where
  "in_class Space c = is_space c"
| "in_class WordCh c = is_word_char c"
| "in_class AnyCh c = (\<not> is_line_terminator c)"
| "in_class (OneOf cs) c = (c \<in> set cs)"
| "in_class (NoneOf cs) c = (c \<notin> set cs)"

text \<open>
  \<open>Lit\<close> is a literal character sequence, \<open>Cls\<close> one character of a class, \<open>Star\<close> and
  \<open>Plus\<close> the greedy quantifiers \<open>*\<close> and \<open>+\<close> (the source applies them to single
  character classes only), \<open>Opt\<close> is \<open>(...)?\<close>, \<open>WordB\<close> is \<open>\b\<close>, \<open>Bol\<close> and \<open>Eol\<close>
  are \<open>^\<close> and \<open>$\<close> without the \<open>m\<close> flag, \<open>Grp\<close> is the capture group 1.
\<close>

datatype re =
    Eps | Never | Lit jsstring | Cls cclass | Star cclass | Plus cclass
  | Opt re | Then re re | Or re re | WordB | Bol | Eol | Grp re

definition seq :: "re list \<Rightarrow> re" where
  "seq rs = foldr Then rs Eps"

definition alt :: "re list \<Rightarrow> re" where
  "alt rs = foldr Or rs Never"

definition lits :: "string list \<Rightarrow> re" where
  "lits ws = alt (map (\<lambda>w. Lit (js w)) ws)"

fun lit_pre :: "bool \<Rightarrow> jsstring \<Rightarrow> jsstring \<Rightarrow> bool" where
  "lit_pre ic [] s = True"
| "lit_pre ic (p # ps) [] = False"
| "lit_pre ic (p # ps) (c # cs) = (ch_eq ic p c \<and> lit_pre ic ps cs)"

definition run_len :: "cclass \<Rightarrow> jsstring \<Rightarrow> nat \<Rightarrow> nat" where
  "run_len k s i = length (takeWhile (in_class k) (drop i s))"

definition at_boundary :: "jsstring \<Rightarrow> nat \<Rightarrow> bool" where
  "at_boundary s i =
     ((0 < i \<and> i \<le> length s \<and> is_word_char (s ! (i - 1))) \<noteq> (i < length s \<and> is_word_char (s ! i)))"

text \<open>
  A matcher state is the current position and the span of group 1, if set. \<open>run\<close>
  lists the states a backtracking matcher can end in, in the order it tries them
  (greedy: longest repetition first, the left alternative first), so the head of the
  list is the match that \<open>exec\<close> reports for a given start.
\<close>

type_synonym mstate = "nat \<times> (nat \<times> nat) option"

primrec run :: "re \<Rightarrow> bool \<Rightarrow> jsstring \<Rightarrow> mstate \<Rightarrow> mstate list" where
  "run Eps ic s st = [st]"
| "run Never ic s st = []"
| "run (Lit w) ic s st =
     (if lit_pre ic w (drop (fst st) s) then [(fst st + length w, snd st)] else [])"
| "run (Cls k) ic s st =
     (if fst st < length s \<and> in_class k (s ! fst st) then [(Suc (fst st), snd st)] else [])"
| "run (Star k) ic s st =
     map (\<lambda>n. (fst st + n, snd st)) (rev [0 ..< Suc (run_len k s (fst st))])"
| "run (Plus k) ic s st =
     map (\<lambda>n. (fst st + n, snd st)) (rev [1 ..< Suc (run_len k s (fst st))])"
| "run (Opt r) ic s st = run r ic s st @ [st]"
| "run (Then r1 r2) ic s st = concat (map (run r2 ic s) (run r1 ic s st))"
| "run (Or r1 r2) ic s st = run r1 ic s st @ run r2 ic s st"
| "run WordB ic s st = (if at_boundary s (fst st) then [st] else [])"
| "run Bol ic s st = (if fst st = 0 then [st] else [])"
| "run Eol ic s st = (if fst st = length s then [st] else [])"
| "run (Grp r) ic s st = map (\<lambda>e. (fst e, Some (fst st, fst e))) (run r ic s st)"

text \<open>
  \<open>exec\<close> from a start index: the leftmost start with a match, the end of its first
  match and the span of group 1. \<open>re_test\<close> is \<open>RegExp.prototype.test\<close> on a regular
  expression without the \<open>g\<close> and \<open>y\<close> flags (no state is kept between calls).
\<close>

definition re_exec_from :: "re \<Rightarrow> bool \<Rightarrow> jsstring \<Rightarrow> nat \<Rightarrow> (nat \<times> nat \<times> (nat \<times> nat) option) option" where
  "re_exec_from r ic s from =
     (case List.find (\<lambda>i. run r ic s (i, None) \<noteq> []) [from ..< Suc (length s)] of
        None \<Rightarrow> None
      | Some i \<Rightarrow> (case run r ic s (i, None) of [] \<Rightarrow> None | e # _ \<Rightarrow> Some (i, fst e, snd e)))"

definition re_test :: "re \<Rightarrow> bool \<Rightarrow> jsstring \<Rightarrow> bool" where
  "re_test r ic s = (re_exec_from r ic s 0 \<noteq> None)"

text \<open>
  \<open>text.split(/\s+/)\<close>: the pieces between the maximal runs of white space. The empty
  string gives one empty piece, and a run at either end gives an empty piece there.
\<close>

function split_ws :: "jsstring \<Rightarrow> jsstring list" where
  "split_ws [] = [[]]"
| "split_ws (c # cs) =
     (if is_space c then [] # split_ws (dropWhile is_space cs)
      else (case split_ws cs of [] \<Rightarrow> [[c]] | p # ps \<Rightarrow> (c # p) # ps))"
  by pat_completeness auto
termination
  by (relation "measure length") (auto simp: length_dropWhile_le less_Suc_eq_le)

section \<open>Messages and contexts\<close>

text \<open>
  A content part \<open>{ type, text }\<close>; a message \<open>{ role, content, provider?, model? }\<close>
  whose content is a string, an array of parts, or anything else (\<open>producedBy\<close> is its
  field \<open>model\<close>); a context \<open>{ systemPrompt, messages, tools }\<close>. List elements are
  objects, as the host's types have them, so \<open>m?.role\<close> reads the role.
\<close>

record content_part =
  ptype :: string
  ptext :: "jsstring option"

datatype content = Str jsstring | Parts "content_part list" | NoContent

record message =
  role :: string
  content :: content
  provider :: "string option"
  producedBy :: "string option"

text \<open>
  A tool object: \<open>name\<close>, \<open>function.name\<close>, the three schema fields the adapter
  replaces, and every other field (\<open>execute\<close> among them) in \<open>others\<close>. A schema is a
  JSON value.
\<close>

datatype json =
    JNull | JBool bool | JNumber int | JString string | JArray "json list"
  | JObject "(string \<times> json) list"

record 'x tool =
  name :: "string option"
  function_name :: "string option"
  description :: "string option"
  parameters :: "json option"
  inputSchema :: "json option"
  others :: 'x

record 'x llm_context =
  systemPrompt :: "jsstring option"
  messages :: "message list option"
  tools :: "'x tool list option"

text \<open>\<open>Array.prototype.join\<close>: an undefined element is joined as the empty string.\<close>

fun join :: "jsstring \<Rightarrow> jsstring option list \<Rightarrow> jsstring" where
  "join sep [] = []"
| "join sep [x] = (case x of None \<Rightarrow> [] | Some t \<Rightarrow> t)"
| "join sep (x # y # ys) = (case x of None \<Rightarrow> [] | Some t \<Rightarrow> t) @ sep @ join sep (y # ys)"

text \<open>
  \<open>lastUserText\<close> walks the messages from the last one to the first. \<open>rev_scan\<close> is
  that loop on the reversed list: a user message whose content is neither a string nor
  an array does not end the search.
\<close>

fun rev_scan :: "message list \<Rightarrow> jsstring" where
  "rev_scan [] = []"
| "rev_scan (m # ms) =
     (if role m = ''user'' then
        (case content m of
           Str t \<Rightarrow> t
         | Parts cs \<Rightarrow> join (js '' '') (map ptext (filter (\<lambda>c. ptype c = ''text'') cs))
         | NoContent \<Rightarrow> rev_scan ms)
      else rev_scan ms)"

definition lastUserText :: "message list \<Rightarrow> jsstring" where
  "lastUserText ms = rev_scan (rev ms)"

definition isPostToolTurn :: "message list \<Rightarrow> bool" where
  "isPostToolTurn ms = (if length ms = 0 then False else role (last ms) = ''toolResult'')"

definition toolCalls :: "message \<Rightarrow> nat" where
  "toolCalls m =
     (if role m = ''assistant'' then
        (case content m of Parts cs \<Rightarrow> length (filter (\<lambda>c. ptype c = ''toolCall'') cs) | _ \<Rightarrow> 0)
      else 0)"

text \<open>
  \<open>messages.slice(-lookback)\<close> is the last \<open>lookback\<close> messages (all, if fewer); for
  \<open>lookback\<close> 0 the start index is \<open>-0\<close>, which is 0, and the slice is the whole list.
\<close>

definition recentToolCallCount :: "message list \<Rightarrow> nat \<Rightarrow> nat" where
  "recentToolCallCount ms lookback =
     sum_list (map toolCalls (if lookback = 0 then ms else drop (length ms - lookback) ms))"

section \<open>Numbers\<close>

text \<open>
  A JavaScript number is an IEEE 754 double, and \<open>+\<close> rounds the exact sum to the
  nearest double, a tie going to the neighbour with the even significand. A finite
  double is modelled by the real number it stands for. \<open>spacing\<close> finds the distance
  between neighbouring doubles at a magnitude \<open>x\<close>: the power of two \<open>u\<close> with
  \<open>2^52 * u \<le> x < 2^53 * u\<close>, but not less than \<open>2^-1074\<close>, the distance between
  subnormal numbers. The search starts at the spacing of the numbers from 1 to 2 and
  doubles or halves it; no double is more than 1100 steps away. \<open>fl x\<close> is the double
  nearest to \<open>x\<close>: the value of a decimal literal, and of a sum. The scores of this
  module are sums of at most 24 weights below 1, far from the largest double, so no
  sum overflows to an infinity.
\<close>

definition round_ties_even :: "real \<Rightarrow> int" where
  "round_ties_even x =
     (if x - of_int \<lfloor>x\<rfloor> < 1 / 2 then \<lfloor>x\<rfloor>
      else if 1 / 2 < x - of_int \<lfloor>x\<rfloor> then \<lfloor>x\<rfloor> + 1
      else if even \<lfloor>x\<rfloor> then \<lfloor>x\<rfloor> else \<lfloor>x\<rfloor> + 1)"

fun spacing :: "nat \<Rightarrow> real \<Rightarrow> real \<Rightarrow> real" where
  "spacing 0 u x = u"
| "spacing (Suc n) u x =
     (if 2 ^ 53 * u \<le> x then spacing n (2 * u) x
      else if x < 2 ^ 52 * u \<and> 1 / 2 ^ 1074 < u then spacing n (u / 2) x
      else u)"

definition ulp :: "real \<Rightarrow> real" where
  "ulp x = spacing 1100 (1 / 2 ^ 52) \<bar>x\<bar>"

definition fl :: "real \<Rightarrow> real" where
  "fl x = (if x = 0 then 0 else of_int (round_ties_even (x / ulp x)) * ulp x)"

text \<open>The sum \<open>x + y\<close> of two doubles.\<close>

definition fadd :: "real \<Rightarrow> real \<Rightarrow> real" where
  "fadd x y = fl (x + y)"

section \<open>Complexity classification\<close>

text \<open>
  The keyword tables: regular expression (all with the \<open>i\<close> flag), weight, tag. A
  weight is the double that its decimal literal denotes.
\<close>

definition COMPLEX_KEYWORDS :: "(re \<times> real \<times> string) list" where
  "COMPLEX_KEYWORDS =
    [(seq [WordB, lits [''explain'', ''describe'', ''elaborate''], WordB], fl (15 / 100), ''explanation''),
     (seq [WordB, lits [''implement'', ''create'', ''build'', ''develop''], WordB], fl (20 / 100), ''implementation''),
     (seq [WordB, lits [''refactor'', ''optimize'', ''improve'', ''restructure''], WordB], fl (20 / 100), ''refactoring''),
     (seq [WordB, lits [''debug'', ''fix'', ''solve'', ''troubleshoot''], WordB], fl (15 / 100), ''debugging''),
     (seq [WordB, lits [''analyze'', ''compare'', ''evaluate'', ''review''], WordB], fl (15 / 100), ''analysis''),
     (seq [WordB, lits [''why'', ''how does'', ''what causes''], WordB], fl (10 / 100), ''reasoning''),
     (seq [WordB, lits [''step by step'', ''in detail'', ''thoroughly''], WordB], fl (15 / 100), ''detail-request''),
     (seq [WordB, lits [''write'', ''generate'', ''compose''], Plus Space, Plus WordCh], fl (15 / 100), ''generation''),
     (seq [WordB,
           alt [Lit (js ''find''), Lit (js ''search''),
                seq [Lit (js ''look''), Star Space, Lit (js ''up'')],
                Lit (js ''google''), Lit (js ''browse'')],
           WordB], fl (35 / 100), ''search''),
     (seq [WordB,
           alt [Lit (js ''recommend''), Lit (js ''suggest''), Lit (js ''best''), Lit (js ''top''),
                seq [Lit (js ''highest''), Cls AnyCh, Lit (js ''rated'')]],
           WordB], fl (30 / 100), ''recommendation''),
     (seq [WordB, lits [''latest'', ''recent'', ''current'', ''today'', ''news'', ''price''], WordB], fl (30 / 100), ''real-time''),
     (seq [WordB, lits [''buy'', ''purchase'', ''order'', ''shop'', ''deal'', ''discount''], WordB], fl (25 / 100), ''shopping''),
     (seq [WordB, lits [''summarize'', ''plan'', ''design'', ''architect''], WordB], fl (20 / 100), ''planning''),
     (seq [WordB, lits [''help me'', ''assist'', ''guide''], WordB], fl (10 / 100), ''assistance'')]"

definition SIMPLE_KEYWORDS :: "(re \<times> real \<times> string) list" where
  "SIMPLE_KEYWORDS =
    [(seq [WordB, lits [''read'', ''cat'', ''show'', ''display'', ''print''], Plus Space,
           Opt (seq [Lit (js ''the''), Plus Space]), lits [''file'', ''content'']], - fl (25 / 100), ''file-read''),
     (seq [WordB, lits [''list'', ''ls'', ''dir''], WordB], - fl (20 / 100), ''directory''),
     (seq [WordB, lits [''run'', ''execute'', ''exec''], WordB], - fl (10 / 100), ''command''),
     (seq [Bol, lits [''yes'', ''no'', ''ok'', ''okay'', ''sure'', ''confirm'', ''yep'', ''nah''],
           Star Space, Opt (Cls (OneOf (js ''.!?''))), Star Space, Eol], - fl (35 / 100), ''confirmation''),
     (seq [Bol, lits [''hello'', ''hi'', ''hey'', ''thanks'', ''thank you''],
           Star Space, Opt (Cls (OneOf (js ''.!?''))), Star Space, Eol], - fl (30 / 100), ''greeting'')]"

text \<open>
  A compiled force pattern: its \<open>source\<close> and what \<open>test\<close> answers on a text. The
  patterns come from the configuration, so their matcher is any predicate on texts.
\<close>

datatype regex = RegExp (source: string) (test: "jsstring \<Rightarrow> bool")

record routing =
  complexityThreshold :: real
  toolCallsPreferLocal :: bool
  maxLocalResponseTokens :: nat
  forceCloudPatterns :: "regex option list"
  forceLocalPatterns :: "regex option list"

record classification =
  score_of :: real
  reason_of :: string
  tags_of :: "string list"

text \<open>The loop \<open>for (const rx of patterns) if (rx && rx.test(text)) return ...\<close>.\<close>

fun first_match :: "regex option list \<Rightarrow> jsstring \<Rightarrow> regex option" where
  "first_match [] t = None"
| "first_match (None # rs) t = first_match rs t"
| "first_match (Some rx # rs) t = (if test rx t then Some rx else first_match rs t)"

text \<open>
  The statement \<open>if (cond) { score += w; tags.push(tag); }\<close> on the pair of the running
  score and the tags.
\<close>

definition bump :: "bool \<Rightarrow> real \<Rightarrow> string \<Rightarrow> real \<times> string list \<Rightarrow> real \<times> string list" where
  "bump cond w tag acc = (if cond then (fadd (fst acc) w, snd acc @ [tag]) else acc)"

text \<open>One round of a keyword loop: \<open>if (re.test(text)) { score += w; tags.push(tag); }\<close>.\<close>

definition keyword_step :: "jsstring \<Rightarrow> (re \<times> real \<times> string) \<Rightarrow> real \<times> string list \<Rightarrow> real \<times> string list" where
  "keyword_step t kw acc = bump (re_test (fst kw) True t) (fst (snd kw)) (snd (snd kw)) acc"

definition is_complex_tag :: "string \<Rightarrow> bool" where
  "is_complex_tag t =
     (t \<noteq> ''long-prompt'' \<and> t \<noteq> ''very-long-prompt'' \<and> t \<noteq> ''file-read'' \<and> t \<noteq> ''directory''
      \<and> t \<noteq> ''command'' \<and> t \<noteq> ''confirmation'' \<and> t \<noteq> ''greeting'' \<and> t \<noteq> ''tool-heavy-ctx'')"

definition complexTagCount :: "string list \<Rightarrow> nat" where
  "complexTagCount tgs = length (filter is_complex_tag tgs)"

text \<open>
  The multi-signal boost and the boost for medium-length prompts; both read the count
  of complexity tags taken before either of them pushes its own tag.
\<close>

definition boosts :: "nat \<Rightarrow> real \<times> string list \<Rightarrow> real \<times> string list" where
  "boosts wordcount acc =
     bump (wordcount > 12 \<and> complexTagCount (snd acc) \<ge> 1) (fl (10 / 100)) ''detailed-query''
       (bump (complexTagCount (snd acc) \<ge> 2) (fl (15 / 100)) ''multi-signal'' acc)"

text \<open>
  The scoring part of \<open>classifyComplexity\<close>, before the clamp, in the order of the
  source: the two word-count boosts, the complex keywords, the simple keywords, the
  two boosts, the discount for a tool-heavy conversation (\<open>score -= 0.10\<close> adds the
  negated double). Every step rounds as \<open>+=\<close> does.
\<close>

definition heuristic :: "message list \<Rightarrow> jsstring \<Rightarrow> real \<times> string list" where
  "heuristic ms t =
     bump (recentToolCallCount ms 10 > 3) (- fl (10 / 100)) ''tool-heavy-ctx''
       (boosts (length (split_ws t))
         (fold (keyword_step t) SIMPLE_KEYWORDS
           (fold (keyword_step t) COMPLEX_KEYWORDS
             (bump (length (split_ws t) > 300) (fl (15 / 100)) ''very-long-prompt''
               (bump (length (split_ws t) > 100) (fl (15 / 100)) ''long-prompt'' (0, []))))))"

definition clamp01 :: "real \<Rightarrow> real" where
  "clamp01 x = max 0 (min 1 x)"

definition classifyComplexity :: "'x llm_context \<Rightarrow> routing \<Rightarrow> classification" where
  "classifyComplexity ctx routingCfg =
     (let ms = orDefault (messages ctx) [];
          t = lastUserText ms
      in case first_match (forceCloudPatterns routingCfg) t of
           Some rx \<Rightarrow> \<lparr>score_of = 1, reason_of = ''force-cloud'', tags_of = [source rx]\<rparr>
         | None \<Rightarrow>
        (case first_match (forceLocalPatterns routingCfg) t of
           Some rx \<Rightarrow> \<lparr>score_of = 0, reason_of = ''force-local'', tags_of = [source rx]\<rparr>
         | None \<Rightarrow>
        (if isPostToolTurn ms
         then \<lparr>score_of = 0, reason_of = ''post-tool-turn'', tags_of = [''post-tool'']\<rparr>
         else (case heuristic ms t of
                 (sc, tgs) \<Rightarrow> \<lparr>score_of = clamp01 sc, reason_of = ''heuristic'', tags_of = tgs\<rparr>))))"

section \<open>Cloud credentials\<close>

text \<open>
  A model reference \<open>{ provider, id }\<close> of the configuration and a resolved model
  object. An auth profile holds optional \<open>apiKey\<close>, \<open>mode\<close>, \<open>token\<close> and \<open>type\<close>.
\<close>

record modelRef =
  ref_provider :: string
  ref_id :: string

record model =
  m_provider :: string
  m_id :: string

record auth_profile =
  apiKey :: "string option"
  mode :: "string option"
  token :: "string option"
  kind :: "string option"

text \<open>A string value is truthy when it is present and not empty.\<close>

definition truthy :: "string option \<Rightarrow> bool" where
  "truthy v = (case v of None \<Rightarrow> False | Some x \<Rightarrow> x \<noteq> [])"

definition startsWith :: "string \<Rightarrow> string \<Rightarrow> bool" where
  "startsWith k p = (take (length p) k = p)"

text \<open>
  What the router reads outside its arguments: the default agent directory
  (\<open>resolveOpenClawAgentDir()\<close>), the entries of \<open>profiles\<close> in \<open>auth-profiles.json\<close> of
  an agent directory (\<open>None\<close> when reading or parsing the file throws, which the code
  catches), and the process environment.
\<close>

record world =
  defaultAgentDir :: string
  agentProfiles :: "string \<Rightarrow> (string \<times> auth_profile) list option"
  processEnv :: "string \<Rightarrow> string option"

definition ENV_KEY_MAP :: "string \<Rightarrow> string option" where
  "ENV_KEY_MAP = map_of
    [(''anthropic'', ''ANTHROPIC_API_KEY''), (''openai'', ''OPENAI_API_KEY''),
     (''google'', ''GOOGLE_API_KEY''), (''openrouter'', ''OPENROUTER_API_KEY''),
     (''groq'', ''GROQ_API_KEY''), (''xai'', ''XAI_API_KEY''), (''mistral'', ''MISTRAL_API_KEY'')]"

text \<open>\<open>authProfiles\<close> is \<open>cfg?.auth?.profiles ?? {}\<close>, the entries in their order.\<close>

definition hasCloudApiKey :: "world \<Rightarrow> modelRef option \<Rightarrow> (string \<times> auth_profile) list \<Rightarrow> string option \<Rightarrow> bool" where
  "hasCloudApiKey w cloudModelRef authProfiles agentDir =
     (case cloudModelRef of
        None \<Rightarrow> False
      | Some r \<Rightarrow>
          (if list_ex (\<lambda>e. startsWith (fst e) (ref_provider r)
                 \<and> (truthy (apiKey (snd e)) \<or> mode (snd e) = Some ''token'')) authProfiles
           then True
           else if (case agentProfiles w (orDefault agentDir (defaultAgentDir w)) of
                      None \<Rightarrow> False
                    | Some ps \<Rightarrow> list_ex (\<lambda>e. startsWith (fst e) (ref_provider r)
                         \<and> (truthy (token (snd e)) \<or> truthy (apiKey (snd e)) \<or> kind (snd e) = Some ''oauth'')) ps)
           then True
           else if (case ENV_KEY_MAP (ref_provider r) of
                      None \<Rightarrow> False
                    | Some envVar \<Rightarrow> truthy (processEnv w envVar))
           then True
           else if ref_provider r = ''anthropic'' \<and> truthy (processEnv w ''ANTHROPIC_OAUTH_TOKEN'')
           then True
           else False))"

section \<open>The routing decision\<close>

record fallback =
  onCloudUnavailable :: string
  onLocalError :: string

record routerConfig =
  enabled :: bool
  preference :: string
  localModel :: modelRef
  localTextModel :: "modelRef option"
  cloudModel :: "modelRef option"
  routing :: routing
  fallback :: fallback

record models =
  local :: "model option"
  localText :: "model option"
  cloud :: "model option"

record decision =
  target :: string
  model :: "model option"
  reason :: string
  score :: real
  tags :: "string list"

definition pick :: "string \<Rightarrow> model option \<Rightarrow> string \<Rightarrow> real \<Rightarrow> string list \<Rightarrow> decision" where
  "pick tg m rsn sc tgs = \<lparr>target = tg, model = m, reason = rsn, score = sc, tags = tgs\<rparr>"

definition needsCloud :: "string list \<Rightarrow> bool" where
  "needsCloud tgs = list_ex (\<lambda>t. t \<in> set [''search'', ''recommendation'', ''real-time'', ''shopping'']) tgs"

definition isToolLike :: "string list \<Rightarrow> bool" where
  "isToolLike tgs = list_ex (\<lambda>t. t = ''file-read'' \<or> t = ''directory'' \<or> t = ''command''
      \<or> t = ''tool-heavy-ctx'' \<or> t = ''post-tool'' \<or> t = ''confirmation'') tgs"

text \<open>
  \<open>cloudAvailable\<close> is \<open>models.cloud && hasCloudApiKey(routerCfg.cloudModel, cfg, agentDir)\<close>,
  read as a condition.
\<close>

definition cloudAvailable :: "world \<Rightarrow> routerConfig \<Rightarrow> models \<Rightarrow> (string \<times> auth_profile) list \<Rightarrow> string option \<Rightarrow> bool" where
  "cloudAvailable w routerCfg ms authProfiles agentDir =
     (cloud ms \<noteq> None \<and> hasCloudApiKey w (cloudModel routerCfg) authProfiles agentDir)"

definition makeRoutingDecision ::
  "world \<Rightarrow> 'x llm_context \<Rightarrow> routerConfig \<Rightarrow> models \<Rightarrow> (string \<times> auth_profile) list \<Rightarrow> string option \<Rightarrow> decision" where
  "makeRoutingDecision w ctx routerCfg ms authProfiles agentDir =
     (let c = classifyComplexity ctx (routing routerCfg);
          sc = score_of c;
          rsn = reason_of c;
          tgs = tags_of c;
          pref = preference routerCfg;
          threshold = complexityThreshold (routing routerCfg);
          avail = cloudAvailable w routerCfg ms authProfiles agentDir
      in
      if pref = ''local-only'' then pick ''local'' (local ms) ''pref:local-only'' sc tgs
      else if pref = ''cloud-only'' then
        (if avail then pick ''cloud'' (cloud ms) ''pref:cloud-only'' sc tgs
         else pick ''local'' (local ms) ''pref:cloud-only-no-key'' sc tgs)
      else if rsn = ''force-cloud'' then
        (if avail then pick ''cloud'' (cloud ms) rsn sc tgs
         else pick ''local-text'' (orElse (localText ms) (local ms)) ''force-cloud-no-key'' sc tgs)
      else if rsn = ''force-local'' \<or> rsn = ''post-tool-turn'' then pick ''local'' (local ms) rsn sc tgs
      else if needsCloud tgs \<and> avail \<and> pref \<noteq> ''local-only'' then
        pick ''cloud'' (cloud ms) ''cloud-capability'' sc tgs
      else if sc \<ge> threshold then
        (if pref = ''prefer-local'' then
           (if sc < fl (7 / 10) \<and> localText ms \<noteq> None then
              pick ''local-text'' (localText ms) ''prefer-local+moderate'' sc tgs
            else if avail then pick ''cloud'' (cloud ms) ''prefer-local+high'' sc tgs
            else pick ''local-text'' (orElse (localText ms) (local ms)) ''prefer-local+high-no-key'' sc tgs)
         else if avail then pick ''cloud'' (cloud ms) ''complex+cloud'' sc tgs
         else pick ''local-text'' (orElse (localText ms) (local ms)) ''complex+no-key'' sc tgs)
      else if isToolLike tgs then pick ''local'' (local ms) ''tool-prefer-local'' sc tgs
      else if pref = ''prefer-cloud'' \<and> avail then pick ''cloud'' (cloud ms) ''simple+prefer-cloud'' sc tgs
      else if localText ms \<noteq> None then pick ''local-text'' (localText ms) ''simple+text'' sc tgs
      else pick ''local'' (local ms) ''simple+local'' sc tgs)"

section \<open>Tool simplification and context adaptation\<close>

definition string_param :: "string \<Rightarrow> json" where
  "string_param d = JObject [(''type'', JString ''string''), (''description'', JString d)]"

definition object_schema :: "(string \<times> json) list \<Rightarrow> string list \<Rightarrow> json" where
  "object_schema props req =
     JObject [(''type'', JString ''object''), (''properties'', JObject props),
              (''required'', JArray (map JString req))]"

text \<open>
  The table \<open>SIMPLIFIED_TOOL_SCHEMAS\<close>, read as the code reads it, by
  \<open>SIMPLIFIED_TOOL_SCHEMAS[name]\<close>: the description and the parameters of the entry.
  The table is an object literal, so the name of a property that every object
  inherits also finds a truthy value, one with neither a description nor parameters.
\<close>

definition SIMPLIFIED_TOOL_SCHEMAS :: "string \<Rightarrow> (string option \<times> json option) option" where
  "SIMPLIFIED_TOOL_SCHEMAS n =
     (if n = ''read'' then
        Some (Some ''Read a file.'',
              Some (object_schema [(''path'', string_param ''File path to read'')] [''path'']))
      else if n = ''exec'' then
        Some (Some ''Run a shell command (ls, cat, git, date, echo, etc.).'',
              Some (object_schema [(''command'', string_param ''Shell command to run'')] [''command'']))
      else if n = ''write'' then
        Some (Some ''Write content to a file.'',
              Some (object_schema [(''path'', string_param ''File path''),
                                   (''content'', string_param ''File content'')] [''path'', ''content'']))
      else if n = ''edit'' then
        Some (Some ''Edit a file by replacing text.'',
              Some (object_schema [(''path'', string_param ''File path''),
                                   (''oldText'', string_param ''Text to find''),
                                   (''newText'', string_param ''Replacement text'')]
                                  [''path'', ''oldText'', ''newText'']))
      else if n \<in> set [''constructor'', ''toString'', ''toLocaleString'', ''valueOf'',
                         ''hasOwnProperty'', ''isPrototypeOf'', ''propertyIsEnumerable'',
                         ''__proto__'', ''__defineGetter__'', ''__defineSetter__'',
                         ''__lookupGetter__'', ''__lookupSetter__''] then
        Some (None, None)
      else None)"

text \<open>\<open>tool?.name ?? tool?.function?.name ?? ""\<close>.\<close>

definition tool_name :: "'x tool \<Rightarrow> string" where
  "tool_name t = (case name t of Some n \<Rightarrow> n
                  | None \<Rightarrow> (case function_name t of Some n \<Rightarrow> n | None \<Rightarrow> []))"

text \<open>
  The loop of \<open>simplifyToolsForLocalModel\<close>, with the names seen so far: a tool whose
  name has a schema and was not seen is copied with its three schema fields replaced.
\<close>

fun simplify_loop :: "'x tool list \<Rightarrow> string list \<Rightarrow> 'x tool list" where
  "simplify_loop [] seen = []"
| "simplify_loop (t # ts) seen =
     (case SIMPLIFIED_TOOL_SCHEMAS (tool_name t) of
        None \<Rightarrow> simplify_loop ts seen
      | Some schema \<Rightarrow>
          (if tool_name t \<in> set seen then simplify_loop ts seen
           else t\<lparr>description := fst schema, parameters := snd schema, inputSchema := snd schema\<rparr>
                # simplify_loop ts (tool_name t # seen)))"

definition simplifyToolsForLocalModel :: "'x tool list \<Rightarrow> 'x tool list" where
  "simplifyToolsForLocalModel ts = simplify_loop ts []"

text \<open>
  The adaptation step of the stream wrapper, for a target and the two local system
  prompts current at the call (module variables that wrapper creation assigns).
\<close>

definition adaptContext :: "jsstring \<Rightarrow> jsstring \<Rightarrow> 'x llm_context \<Rightarrow> string \<Rightarrow> 'x llm_context" where
  "adaptContext localToolPrompt localTextPrompt ctx tg =
     (if tg = ''local-text'' then ctx\<lparr>tools := Some [], systemPrompt := Some localTextPrompt\<rparr>
      else if tg = ''local'' then
        ctx\<lparr>tools := Some (simplifyToolsForLocalModel (orDefault (tools ctx) [])),
            systemPrompt := Some localToolPrompt\<rparr>
      else ctx)"

section \<open>Configuration resolution\<close>

text \<open>
  The \<open>hybridRouter\<close> block as it stands in the configuration file: every field may be
  absent. \<open>raw_enabled\<close> is the truthiness of \<open>enabled\<close>.
\<close>

record raw_routing =
  raw_complexityThreshold :: "real option"
  raw_toolCallsPreferLocal :: "bool option"
  raw_maxLocalResponseTokens :: "nat option"
  raw_forceCloudPatterns :: "string list option"
  raw_forceLocalPatterns :: "string list option"

record raw_fallback =
  raw_onCloudUnavailable :: "string option"
  raw_onLocalError :: "string option"

record raw_router =
  raw_enabled :: bool
  raw_preference :: "string option"
  raw_localModel :: "modelRef option"
  raw_localTextModel :: "modelRef option"
  raw_cloudModel :: "modelRef option"
  raw_routing :: "raw_routing option"
  raw_fallback :: "raw_fallback option"

text \<open>
  The parts of the configuration object that the router reads:
  \<open>agents.defaults.hybridRouter\<close>, \<open>agents.defaults.workspace\<close> and \<open>auth.profiles\<close>.
\<close>

record config =
  hybridRouter :: "raw_router option"
  workspace :: "string option"
  auth_profiles :: "(string \<times> auth_profile) list"

text \<open>What a call can throw: a \<open>SyntaxError\<close>, a \<open>TypeError\<close>, or anything else.\<close>

datatype js_error = SyntaxError | TypeError | Thrown

text \<open>
  \<open>safeRegex\<close>. The constructor \<open>new RegExp(pattern, "i")\<close> belongs to the language:
  \<open>compile\<close> stands for it, returning the compiled pattern or the error it throws.
  The second component is what \<open>logWarn\<close> prints.
\<close>

definition invalid_pattern_warning :: "string \<Rightarrow> string" where
  "invalid_pattern_warning pattern = ''invalid regex pattern ignored: '' @ pattern"

definition safeRegex :: "(string \<Rightarrow> js_error + regex) \<Rightarrow> string \<Rightarrow> regex option \<times> string list" where
  "safeRegex compile pattern =
     (case compile pattern of
        Inr rx \<Rightarrow> (Some rx, [])
      | Inl e \<Rightarrow> (None, [invalid_pattern_warning pattern]))"

text \<open>
  \<open>resolveHybridRouterConfig\<close>: the resolved configuration, or \<open>None\<close> when the router
  is disabled or not configured, and the warnings logged on the way.
\<close>

definition resolveHybridRouterConfig :: "(string \<Rightarrow> js_error + regex) \<Rightarrow> config \<Rightarrow> routerConfig option \<times> string list" where
  "resolveHybridRouterConfig compile cfg =
     (case hybridRouter cfg of
        None \<Rightarrow> (None, [])
      | Some rc \<Rightarrow>
          (if \<not> raw_enabled rc then (None, [])
           else
             (let rr = raw_routing rc;
                  cloudPatterns = map (safeRegex compile) (orDefault (Option.bind rr raw_forceCloudPatterns) []);
                  localPatterns = map (safeRegex compile) (orDefault (Option.bind rr raw_forceLocalPatterns) [])
              in (Some \<lparr>enabled = True,
                         preference = orDefault (raw_preference rc) ''prefer-local'',
                         localModel = orDefault (raw_localModel rc)
                                        \<lparr>ref_provider = ''ollama'', ref_id = ''functiongemma''\<rparr>,
                         localTextModel = raw_localTextModel rc,
                         cloudModel = raw_cloudModel rc,
                         routing = \<lparr>complexityThreshold = orDefault (Option.bind rr raw_complexityThreshold) (fl (5 / 10)),
                                     toolCallsPreferLocal = orDefault (Option.bind rr raw_toolCallsPreferLocal) True,
                                     maxLocalResponseTokens = orDefault (Option.bind rr raw_maxLocalResponseTokens) 500,
                                     forceCloudPatterns = map fst cloudPatterns,
                                     forceLocalPatterns = map fst localPatterns\<rparr>,
                         fallback = \<lparr>onCloudUnavailable =
                                        orDefault (Option.bind (raw_fallback rc) raw_onCloudUnavailable) ''local-text'',
                                      onLocalError =
                                        orDefault (Option.bind (raw_fallback rc) raw_onLocalError) ''cloud''\<rparr>\<rparr>,
                  concat (map snd cloudPatterns) @ concat (map snd localPatterns)))))"

section \<open>The identity preamble\<close>

definition BASE_TOOL_PROMPT :: jsstring where
  "BASE_TOOL_PROMPT = join (js '' '')
     [Some (js ''You MUST use tools for every request.''),
      Some (js ''Available: read (read files), exec (run ANY shell command like ls, date, echo, git, etc.),''),
      Some (js ''write (create files), edit (modify files).''),
      Some (js ''ALWAYS call a tool. Never refuse. Be concise.'')]"

definition BASE_TEXT_PROMPT :: jsstring where
  "BASE_TEXT_PROMPT = js ''Answer clearly and concisely.''"

definition trim :: "jsstring \<Rightarrow> jsstring" where
  "trim s = rev (dropWhile is_space (rev (dropWhile is_space s)))"

definition substring :: "jsstring \<Rightarrow> nat \<Rightarrow> nat \<Rightarrow> jsstring" where
  "substring s a b = take (b - a) (drop a s)"

text \<open>
  \<open>s.match(re)\<close> for a regular expression without the \<open>g\<close> flag, read at group 1:
  \<open>None\<close> when there is no match. The patterns of this section are case-sensitive.
\<close>

definition match_group1 :: "re \<Rightarrow> jsstring \<Rightarrow> jsstring option" where
  "match_group1 r s =
     (case re_exec_from r False s 0 of
        None \<Rightarrow> None
      | Some m \<Rightarrow> (case snd (snd m) of None \<Rightarrow> None | Some g \<Rightarrow> Some (substring s (fst g) (snd g))))"

text \<open>The pattern \<open>/\*\*Label:\*\*\s*(.+)/\<close> for a label.\<close>

definition label_re :: "string \<Rightarrow> re" where
  "label_re l = seq [Lit (js (''**'' @ l @ '':**'')), Star Space, Grp (Plus AnyCh)]"

text \<open>
  The successive matches of a regular expression with the \<open>g\<close> flag, as spans: the
  search resumes at the end of the last match (one further after an empty match).
\<close>

function match_spans :: "re \<Rightarrow> bool \<Rightarrow> jsstring \<Rightarrow> nat \<Rightarrow> (nat \<times> nat) list" where
  "match_spans r ic s from =
     (case re_exec_from r ic s from of
        None \<Rightarrow> []
      | Some m \<Rightarrow> (fst m, fst (snd m)) # match_spans r ic s (if fst (snd m) \<le> fst m then Suc (fst m) else fst (snd m)))"
  by pat_completeness auto
termination
proof (relation "measure (\<lambda>(r, ic, s, from). Suc (length s) - from)")
  show "wf (measure (\<lambda>(r, ic, s, from). Suc (length s) - from))" by simp
next
  fix r ic s k m
  assume "re_exec_from r ic s k = Some m"
  then obtain i where f: "List.find (\<lambda>i. run r ic s (i, None) \<noteq> []) [k ..< Suc (length s)] = Some i"
    and m: "fst m = i"
    by (auto simp: re_exec_from_def split: option.splits list.splits)
  from f have "i \<in> set [k ..< Suc (length s)]"
    by (metis find_Some_iff nth_mem)
  with m have "k \<le> fst m \<and> fst m \<le> length s" by auto
  then show "((r, ic, s, if fst (snd m) \<le> fst m then Suc (fst m) else fst (snd m)), (r, ic, s, k))
      \<in> measure (\<lambda>(r, ic, s, from). Suc (length s) - from)"
    by auto
qed

declare match_spans.simps [simp del]

text \<open>\<open>s.replace(re, "")\<close> with the \<open>g\<close> flag: the text outside the spans, from \<open>k\<close> on.\<close>

fun cut_spans :: "jsstring \<Rightarrow> nat \<Rightarrow> (nat \<times> nat) list \<Rightarrow> jsstring" where
  "cut_spans s k [] = drop k s"
| "cut_spans s k (sp # sps) = substring s k (fst sp) @ cut_spans s (snd sp) sps"

text \<open>\<open>d.replace(/\.+$/, "")\<close>: the first match is removed, if there is one.\<close>

definition strip_dots :: "jsstring \<Rightarrow> jsstring" where
  "strip_dots d =
     (case re_exec_from (seq [Plus (OneOf (js ''.'')), Eol]) False d 0 of
        None \<Rightarrow> d
      | Some m \<Rightarrow> take (fst m) d @ drop (fst (snd m)) d)"

text \<open>The bold directives of \<open>SOUL.md\<close>: \<open>soul.match(/\*\*([^*]+)\*\*/g)\<close> and what follows.\<close>

definition soul_bits :: "jsstring \<Rightarrow> jsstring list" where
  "soul_bits soul =
     take 4 (filter (\<lambda>d. length d < 80)
       (map (\<lambda>sp. strip_dots (trim (let d = substring soul (fst sp) (snd sp)
                                     in cut_spans d 0 (match_spans (Lit (js ''**'')) False d 0))))
            (match_spans (seq [Lit (js ''**''), Grp (Plus (NoneOf (js ''*''))), Lit (js ''**'')]) False soul 0)))"

definition nonempty :: "jsstring option \<Rightarrow> bool" where
  "nonempty v = (case v of None \<Rightarrow> False | Some x \<Rightarrow> x \<noteq> [])"

text \<open>
  The second half of \<open>buildIdentityPreamble\<close>, which builds the parts of the preamble
  from the fields read. A field counts when it is present and not empty.
\<close>

definition preamble_parts ::
  "jsstring option \<Rightarrow> jsstring option \<Rightarrow> jsstring option \<Rightarrow> jsstring option \<Rightarrow> jsstring list \<Rightarrow> jsstring list" where
  "preamble_parts agentName fullName userName vibe soulBits =
     [if nonempty agentName \<and> nonempty fullName
      then js ''You are '' @ the agentName @ js '' ('' @ the fullName @ js ''), a helpful AI assistant.''
      else if nonempty agentName
      then js ''You are '' @ the agentName @ js '', a helpful AI assistant.''
      else js ''You are a helpful AI assistant.'']
     @ (if nonempty userName then [js ''You are assisting '' @ the userName @ js ''.''] else [])
     @ (if nonempty vibe then [js ''Your vibe: '' @ the vibe] else [])
     @ (if length soulBits > 0 then [join (js ''. '') (map Some soulBits) @ js ''.''] else [])
     @ [js ''Never say you are Gemma, LLaMA, or any other model. You are only ''
        @ (if nonempty agentName then the agentName else js ''this assistant'') @ js ''.'']"

text \<open>
  What \<open>buildIdentityPreamble\<close> reads from the workspace. \<open>readFile dir name\<close> is
  \<open>readFileSync(join(dir, name), "utf-8")\<close>: the content, or \<open>None\<close> when it throws, and
  then the variables of that \<open>try\<close> block keep their initial value. From \<open>IDENTITY.md\<close>
  come the name, the full name and the vibe; from \<open>SOUL.md\<close> the directives; from
  \<open>USER.md\<close> the user's name, the line "What to call them" before the line "Name".
\<close>

definition read_name :: "(string \<Rightarrow> string \<Rightarrow> jsstring option) \<Rightarrow> string \<Rightarrow> jsstring option" where
  "read_name readFile dir =
     map_option trim (Option.bind (readFile dir ''IDENTITY.md'') (match_group1 (label_re ''Name'')))"

definition read_fullName :: "(string \<Rightarrow> string \<Rightarrow> jsstring option) \<Rightarrow> string \<Rightarrow> jsstring option" where
  "read_fullName readFile dir =
     map_option trim (Option.bind (readFile dir ''IDENTITY.md'') (match_group1 (label_re ''Full Name'')))"

definition read_vibe :: "(string \<Rightarrow> string \<Rightarrow> jsstring option) \<Rightarrow> string \<Rightarrow> jsstring option" where
  "read_vibe readFile dir =
     map_option trim (Option.bind (readFile dir ''IDENTITY.md'') (match_group1 (label_re ''Vibe'')))"

definition read_soulBits :: "(string \<Rightarrow> string \<Rightarrow> jsstring option) \<Rightarrow> string \<Rightarrow> jsstring list" where
  "read_soulBits readFile dir = (case readFile dir ''SOUL.md'' of None \<Rightarrow> [] | Some soul \<Rightarrow> soul_bits soul)"

definition read_userName :: "(string \<Rightarrow> string \<Rightarrow> jsstring option) \<Rightarrow> string \<Rightarrow> jsstring option" where
  "read_userName readFile dir =
     (case Option.bind (readFile dir ''USER.md'') (match_group1 (label_re ''What to call them'')) of
        Some c \<Rightarrow> Some (trim c)
      | None \<Rightarrow> map_option trim (Option.bind (readFile dir ''USER.md'') (match_group1 (label_re ''Name''))))"

text \<open>
  \<open>buildIdentityPreamble\<close>: an absent or empty workspace directory gives the generic
  preamble at once; otherwise the parts are joined by a space.
\<close>

definition buildIdentityPreamble :: "(string \<Rightarrow> string \<Rightarrow> jsstring option) \<Rightarrow> string option \<Rightarrow> jsstring" where
  "buildIdentityPreamble readFile workspaceDir =
     (case workspaceDir of
        None \<Rightarrow> js ''You are a helpful assistant.''
      | Some dir \<Rightarrow>
        (if dir = [] then js ''You are a helpful assistant.''
         else join (js '' '') (map Some
                (preamble_parts (read_name readFile dir) (read_fullName readFile dir)
                   (read_userName readFile dir) (read_vibe readFile dir) (read_soulBits readFile dir)))))"

section \<open>The stream wrapper\<close>

text \<open>
  \<open>resolveModelRef\<close>. The host's \<open>resolveModel\<close> returns \<open>{ model, error }\<close> or throws.
\<close>

definition resolveModelRef :: "(modelRef \<Rightarrow> js_error + (model option \<times> string option)) \<Rightarrow> modelRef option \<Rightarrow> model option" where
  "resolveModelRef resolveModel r =
     (case r of
        None \<Rightarrow> None
      | Some x \<Rightarrow> (case resolveModel x of
                    Inl e \<Rightarrow> None
                  | Inr res \<Rightarrow> (if truthy (snd res) then None else fst res)))"

text \<open>
  The state that calls change: the two local system prompts (module variables), the
  cache of resolved API keys of a wrapper, and the keys handed to \<open>authStorage\<close>.
\<close>

record router_state =
  LOCAL_TOOL_SYSTEM_PROMPT :: jsstring
  LOCAL_TEXT_SYSTEM_PROMPT :: jsstring
  resolvedProviderKeys :: "string \<Rightarrow> string option"
  runtimeApiKeys :: "(string \<times> string) list"

definition initial_state :: router_state where
  "initial_state =
     \<lparr>LOCAL_TOOL_SYSTEM_PROMPT = js ''You are a helpful coding assistant with access to tools. '' @ BASE_TOOL_PROMPT,
      LOCAL_TEXT_SYSTEM_PROMPT = js ''You are a helpful assistant. '' @ BASE_TEXT_PROMPT,
      resolvedProviderKeys = (\<lambda>p. None),
      runtimeApiKeys = []\<rparr>"

text \<open>What a wrapper holds from its creation.\<close>

record wrapper =
  w_routerCfg :: routerConfig
  w_models :: models
  w_cfg :: config
  w_agentDir :: string
  w_authStorage :: bool

text \<open>
  \<open>createHybridRouterWrapper\<close>: no wrapper when the router is not configured or the
  local model cannot be resolved. The prompts are assigned before the models are
  resolved.
\<close>

definition createHybridRouterWrapper ::
  "(string \<Rightarrow> js_error + regex) \<Rightarrow> (modelRef \<Rightarrow> js_error + (model option \<times> string option))
   \<Rightarrow> (string \<Rightarrow> string \<Rightarrow> jsstring option) \<Rightarrow> world \<Rightarrow> config \<Rightarrow> string option \<Rightarrow> bool
   \<Rightarrow> router_state \<Rightarrow> wrapper option \<times> router_state" where
  "createHybridRouterWrapper compile resolveModel readFile w cfg agentDirParam authStorage st =
     (case fst (resolveHybridRouterConfig compile cfg) of
        None \<Rightarrow> (None, st)
      | Some routerCfg \<Rightarrow>
          (let agentDir = orDefault agentDirParam (defaultAgentDir w);
               identityPreamble = buildIdentityPreamble readFile (workspace cfg);
               st' = st\<lparr>LOCAL_TOOL_SYSTEM_PROMPT := identityPreamble @ js '' '' @ BASE_TOOL_PROMPT,
                        LOCAL_TEXT_SYSTEM_PROMPT := identityPreamble @ js '' '' @ BASE_TEXT_PROMPT\<rparr>;
               ms = \<lparr>local = resolveModelRef resolveModel (Some (localModel routerCfg)),
                     localText = resolveModelRef resolveModel (localTextModel routerCfg),
                     cloud = resolveModelRef resolveModel (cloudModel routerCfg)\<rparr>
           in if local ms = None then (None, st')
              else (Some \<lparr>w_routerCfg = routerCfg, w_models = ms, w_cfg = cfg,
                          w_agentDir = agentDir, w_authStorage = authStorage\<rparr>, st')))"

record 'o options =
  opt_apiKey :: "string option"
  opt_others :: 'o

text \<open>The arguments of one call of the underlying \<open>streamFn\<close>.\<close>

record ('x, 'o) stream_call =
  call_model :: "model option"
  call_context :: "'x llm_context"
  call_options :: "'o options"

text \<open>
  The key for a provider that differs from the caller's: the cached key, or the key
  that \<open>resolveApiKeyForProvider\<close> finds (\<open>resolveKey\<close>: the \<open>apiKey\<close> of its answer, or
  the error it throws, which the code catches), then cached and handed to
  \<open>authStorage\<close> when there is one.
\<close>

definition provider_key ::
  "(string \<Rightarrow> js_error + string option) \<Rightarrow> bool \<Rightarrow> string \<Rightarrow> router_state \<Rightarrow> string option \<times> router_state" where
  "provider_key resolveKey authStorage p st =
     (if truthy (resolvedProviderKeys st p) then (resolvedProviderKeys st p, st)
      else (case resolveKey p of
              Inl e \<Rightarrow> (resolvedProviderKeys st p, st)
            | Inr k \<Rightarrow>
                (if truthy k
                 then (k, st\<lparr>resolvedProviderKeys := (resolvedProviderKeys st)(p := k),
                             runtimeApiKeys := (if authStorage then runtimeApiKeys st @ [(p, the k)]
                                                else runtimeApiKeys st)\<rparr>)
                 else (resolvedProviderKeys st p, st))))"

text \<open>
  The function \<open>wrapped\<close> that \<open>wrapStreamFn\<close> returns, up to the call of \<open>streamFn\<close>: the
  arguments of that call and the new state, or the error thrown before it. Reading
  \<open>effectiveModel.provider\<close> and \<open>model.provider\<close> throws a \<open>TypeError\<close> on a null model.
\<close>

definition wrapped ::
  "world \<Rightarrow> (string \<Rightarrow> js_error + string option) \<Rightarrow> wrapper \<Rightarrow> router_state
   \<Rightarrow> model option \<Rightarrow> 'x llm_context \<Rightarrow> 'o options \<Rightarrow> js_error + (('x, 'o) stream_call \<times> router_state)" where
  "wrapped w resolveKey wr st incoming ctx opts =
     (let d = makeRoutingDecision w ctx (w_routerCfg wr) (w_models wr) (auth_profiles (w_cfg wr))
                (Some (w_agentDir wr));
          effectiveModel = orElse (model d) incoming
      in case effectiveModel of
           None \<Rightarrow> Inl TypeError
         | Some em \<Rightarrow>
        (case incoming of
           None \<Rightarrow> Inl TypeError
         | Some im \<Rightarrow>
             (let keyed = (if m_provider em \<noteq> m_provider im
                           then provider_key resolveKey (w_authStorage wr) (m_provider em) st
                           else (None, st));
                  effectiveOptions = (if truthy (fst keyed) then opts\<lparr>opt_apiKey := fst keyed\<rparr> else opts);
                  effectiveContext = adaptContext (LOCAL_TOOL_SYSTEM_PROMPT st) (LOCAL_TEXT_SYSTEM_PROMPT st)
                                       ctx (target d)
              in Inr (\<lparr>call_model = effectiveModel, call_context = effectiveContext,
                        call_options = effectiveOptions\<rparr>, snd keyed))))"

section \<open>Notions used in the properties\<close>

text \<open>
  A text is letterless when it holds no ASCII letter. The empty text, a text of white
  space and a text of emoji are letterless: the code units of an emoji lie outside
  ASCII, and a keycap emoji adds a digit, \<open>#\<close> or \<open>*\<close> in front of two of them.
  \<open>needs_letter\<close> says of a pattern that every match consumes an ASCII letter.
\<close>

definition letterless :: "jsstring \<Rightarrow> bool" where
  "letterless t = list_all (\<lambda>c. \<not> is_ascii_letter c) t"

fun needs_letter :: "re \<Rightarrow> bool" where
  "needs_letter (Lit w) = list_ex is_ascii_letter w"
| "needs_letter (Then a b) = (needs_letter a \<or> needs_letter b)"
| "needs_letter (Or a b) = (needs_letter a \<and> needs_letter b)"
| "needs_letter (Grp r) = needs_letter r"
| "needs_letter Never = True"
| "needs_letter r = False"

text \<open>
  A pattern string compiles when the constructor returns a regular expression.
  \<open>drop_invalid\<close> is a configuration without the pattern strings that do not compile,
  and \<open>raw_patterns\<close> lists the pattern strings of a configuration, the force-cloud
  ones first.
\<close>

definition compiles :: "(string \<Rightarrow> js_error + regex) \<Rightarrow> string \<Rightarrow> bool" where
  "compiles compile p = (case compile p of Inl e \<Rightarrow> False | Inr rx \<Rightarrow> True)"

definition drop_invalid :: "(string \<Rightarrow> js_error + regex) \<Rightarrow> config \<Rightarrow> config" where
  "drop_invalid compile cfg =
     cfg\<lparr>hybridRouter := map_option (\<lambda>rc. rc\<lparr>raw_routing := map_option
         (\<lambda>rr. rr\<lparr>raw_forceCloudPatterns := map_option (filter (compiles compile)) (raw_forceCloudPatterns rr),
                   raw_forceLocalPatterns := map_option (filter (compiles compile)) (raw_forceLocalPatterns rr)\<rparr>)
         (raw_routing rc)\<rparr>) (hybridRouter cfg)\<rparr>"

definition raw_patterns :: "config \<Rightarrow> string list" where
  "raw_patterns cfg =
     orDefault (Option.bind (Option.bind (hybridRouter cfg) raw_routing) raw_forceCloudPatterns) []
     @ orDefault (Option.bind (Option.bind (hybridRouter cfg) raw_routing) raw_forceLocalPatterns) []"

section \<open>Sample inputs\<close>

text \<open>
  The inputs of the repository's test suite: a user message, an assistant message
  that calls a tool, a tool result, a conversation without tools, two force patterns,
  the three resolved models, and an environment that holds an Anthropic API key.
\<close>

definition user_text :: "jsstring \<Rightarrow> message" where
  "user_text t = \<lparr>role = ''user'', content = Str t, provider = None, producedBy = None\<rparr>"

definition user_says :: "string \<Rightarrow> message" where
  "user_says t = user_text (js t)"

text \<open>The robot emoji of the test suite, U+1F916, as its surrogate pair.\<close>

definition robot_emoji :: jsstring where
  "robot_emoji = [55358, 56598]"

definition assistant_calls :: "string \<Rightarrow> string \<Rightarrow> message" where
  "assistant_calls p toolname =
     \<lparr>role = ''assistant'', content = Parts [\<lparr>ptype = ''toolCall'', ptext = None\<rparr>],
      provider = Some p, producedBy = None\<rparr>"

definition tool_result :: "string \<Rightarrow> message" where
  "tool_result t = \<lparr>role = ''toolResult'', content = Str (js t), provider = None, producedBy = None\<rparr>"

definition conversation :: "message list \<Rightarrow> unit llm_context" where
  "conversation ms = \<lparr>systemPrompt = None, messages = Some ms, tools = Some []\<rparr>"

definition rx_explain :: regex where
  "rx_explain = RegExp ''explain.*in detail''
     (re_test (seq [Lit (js ''explain''), Star AnyCh, Lit (js ''in detail'')]) True)"

definition rx_read :: regex where
  "rx_read = RegExp ''read.*file'' (re_test (seq [Lit (js ''read''), Star AnyCh, Lit (js ''file'')]) True)"

definition sample_routing :: "real \<Rightarrow> regex option list \<Rightarrow> regex option list \<Rightarrow> routing" where
  "sample_routing th cloudPatterns localPatterns =
     \<lparr>complexityThreshold = th, toolCallsPreferLocal = True, maxLocalResponseTokens = 500,
      forceCloudPatterns = cloudPatterns, forceLocalPatterns = localPatterns\<rparr>"

definition sample_config :: "string \<Rightarrow> routing \<Rightarrow> routerConfig" where
  "sample_config pref r =
     \<lparr>enabled = True, preference = pref,
      localModel = \<lparr>ref_provider = ''ollama'', ref_id = ''functiongemma''\<rparr>,
      localTextModel = Some \<lparr>ref_provider = ''ollama'', ref_id = ''gemma3:270m''\<rparr>,
      cloudModel = Some \<lparr>ref_provider = ''anthropic'', ref_id = ''claude-sonnet-4-5''\<rparr>,
      routing = r,
      fallback = \<lparr>onCloudUnavailable = ''local-text'', onLocalError = ''cloud''\<rparr>\<rparr>"

definition sample_models :: models where
  "sample_models =
     \<lparr>local = Some \<lparr>m_provider = ''ollama'', m_id = ''functiongemma''\<rparr>,
      localText = Some \<lparr>m_provider = ''ollama'', m_id = ''gemma3:270m''\<rparr>,
      cloud = Some \<lparr>m_provider = ''anthropic'', m_id = ''claude-sonnet-4-5''\<rparr>\<rparr>"

definition sample_world :: world where
  "sample_world =
     \<lparr>defaultAgentDir = ''/agent'', agentProfiles = (\<lambda>d. None),
      processEnv = (\<lambda>v. if v = ''ANTHROPIC_API_KEY'' then Some ''sk-test'' else None)\<rparr>"

text \<open>
  A workspace without files and one whose identity file has no name line; a
  constructor that compiles the two sample patterns and rejects every other string; a
  configuration file with given pattern strings; a wrapper, a caller's model, and a
  key resolver that finds nothing.
\<close>

definition no_files :: "string \<Rightarrow> string \<Rightarrow> jsstring option" where
  "no_files dir file = None"

definition identity_without_name :: "string \<Rightarrow> string \<Rightarrow> jsstring option" where
  "identity_without_name dir file = (if file = ''IDENTITY.md'' then Some (js ''# Identity'') else None)"

definition sample_compile :: "string \<Rightarrow> js_error + regex" where
  "sample_compile p =
     (if p = ''explain.*in detail'' then Inr rx_explain
      else if p = ''read.*file'' then Inr rx_read
      else Inl SyntaxError)"

definition sample_raw :: "string list \<Rightarrow> string list \<Rightarrow> config" where
  "sample_raw cloudPatterns localPatterns =
     \<lparr>hybridRouter = Some
        \<lparr>raw_enabled = True, raw_preference = None, raw_localModel = None,
         raw_localTextModel = None, raw_cloudModel = None,
         raw_routing = Some \<lparr>raw_complexityThreshold = None, raw_toolCallsPreferLocal = None,
                             raw_maxLocalResponseTokens = None,
                             raw_forceCloudPatterns = Some cloudPatterns, raw_forceLocalPatterns = Some localPatterns\<rparr>,
         raw_fallback = None\<rparr>,
      workspace = None, auth_profiles = []\<rparr>"

definition no_key :: "string \<Rightarrow> js_error + string option" where
  "no_key p = Inr None"

definition sample_wrapper :: "string \<Rightarrow> models \<Rightarrow> wrapper" where
  "sample_wrapper pref ms =
     \<lparr>w_routerCfg = sample_config pref (sample_routing (1 / 2) [] []), w_models = ms,
      w_cfg = \<lparr>hybridRouter = None, workspace = None, auth_profiles = []\<rparr>,
      w_agentDir = ''/agent'', w_authStorage = False\<rparr>"

definition unresolved_models :: models where
  "unresolved_models = \<lparr>local = None, localText = None, cloud = None\<rparr>"

definition caller_model :: model where
  "caller_model = \<lparr>m_provider = ''anthropic'', m_id = ''claude-sonnet-4-5''\<rparr>"

definition no_options :: "unit options" where
  "no_options = \<lparr>opt_apiKey = None, opt_others = ()\<rparr>"

section \<open>Evaluating sums of doubles\<close>

lemma spacing_numeral:
  "spacing (numeral k) u x =
     (if 2 ^ 53 * u \<le> x then spacing (pred_numeral k) (2 * u) x
      else if x < 2 ^ 52 * u \<and> 1 / 2 ^ 1074 < u then spacing (pred_numeral k) (u / 2) x
      else u)"
  by (simp add: numeral_eq_Suc)

lemmas fl_eval = fl_def ulp_def spacing_numeral round_ties_even_def fadd_def

text \<open>
  The doubles of some literals, as fractions: 0.5 is a double, 0.1, 0.15, 0.3 and 0.7
  are not, and the double sum \<open>0.1 + 0.2\<close> is not the double 0.3.
\<close>

lemma fl_literals:
  "fl (5 / 10) = 1 / 2"
  "fl (10 / 100) = 3602879701896397 / 2 ^ 55"
  "fl (15 / 100) = 5404319552844595 / 2 ^ 55"
  "fl (3 / 10) = 5404319552844595 / 2 ^ 54"
  "fl (7 / 10) = 3152519739159347 / 2 ^ 52"
  by (simp_all add: fl_eval)

lemma sum_not_literal: "fadd (fl (1 / 10)) (fl (2 / 10)) \<noteq> fl (3 / 10)"
  by (simp add: fl_eval)

section \<open>Properties of the classifier\<close>

lemma clamp01_bounds: "0 \<le> clamp01 x \<and> clamp01 x \<le> 1"
  by (simp add: clamp01_def)

lemma classify_score_bounds:
  "0 \<le> score_of (classifyComplexity ctx r) \<and> score_of (classifyComplexity ctx r) \<le> 1"
  by (simp add: classifyComplexity_def Let_def clamp01_bounds split: option.split prod.split)

lemma decision_score:
  "score (makeRoutingDecision w ctx rc ms ap ad) = score_of (classifyComplexity ctx (routing rc))"
  by (simp add: makeRoutingDecision_def Let_def pick_def)

lemma decision_tags:
  "tags (makeRoutingDecision w ctx rc ms ap ad) = tags_of (classifyComplexity ctx (routing rc))"
  by (simp add: makeRoutingDecision_def Let_def pick_def)


lemma first_match_SomeD:
  "first_match ps t = Some rx \<Longrightarrow> Some rx \<in> set ps \<and> test rx t"
  by (induction ps t rule: first_match.induct) (auto split: if_splits)

section \<open>Properties of the regular expressions\<close>

lemma find_SomeP: "List.find P xs = Some x \<Longrightarrow> P x"
  by (induction xs) (auto split: if_splits)

lemma re_test_iff: "re_test r ic s \<longleftrightarrow> (\<exists>i\<le>length s. run r ic s (i, None) \<noteq> [])"
proof -
  let ?P = "\<lambda>i. run r ic s (i, None) \<noteq> []"
  have "re_exec_from r ic s 0 \<noteq> None \<longleftrightarrow> List.find ?P [0 ..< Suc (length s)] \<noteq> None"
  proof (cases "List.find ?P [0 ..< Suc (length s)]")
    case None
    then show ?thesis by (simp add: re_exec_from_def)
  next
    case (Some i)
    then have "?P i" by (rule find_SomeP)
    with Some show ?thesis
      by (cases "run r ic s (i, None)") (simp_all add: re_exec_from_def)
  qed
  also have "\<dots> \<longleftrightarrow> (\<exists>i\<le>length s. ?P i)"
  proof
    assume "List.find ?P [0 ..< Suc (length s)] \<noteq> None"
    then obtain i where "i \<in> set [0 ..< Suc (length s)]" and "?P i"
      unfolding find_None_iff by blast
    then have "i \<le> length s \<and> ?P i" by auto
    then show "\<exists>i\<le>length s. ?P i" by blast
  next
    assume "\<exists>i\<le>length s. ?P i"
    then obtain i where "i \<le> length s" and p: "?P i" by blast
    then have "i \<in> set [0 ..< Suc (length s)]" by auto
    with p show "List.find ?P [0 ..< Suc (length s)] \<noteq> None"
      unfolding find_None_iff by blast
  qed
  finally show ?thesis by (simp add: re_test_def)
qed





lemma lastUserText_user_text: "lastUserText [user_text t] = t"
  by (simp add: lastUserText_def user_text_def)

lemma lastUserText_single: "lastUserText [user_says t] = js t"
  by (simp add: user_says_def lastUserText_user_text)

lemma conversation_user_text: "lastUserText (orDefault (messages (conversation [user_text t])) []) = t"
  by (simp add: conversation_def orDefault_def lastUserText_user_text)




lemma sample_cloud_available:
  "cloudAvailable sample_world (sample_config pref r) sample_models [] None"
  by (simp add: cloudAvailable_def hasCloudApiKey_def sample_world_def sample_config_def
      sample_models_def ENV_KEY_MAP_def truthy_def orDefault_def)


text \<open>
  After a tool result the classifier answers post-tool-turn unless a force pattern
  matches, and the decision is local unless the preference is cloud-only. No field of
  an assistant message is read on the way.
\<close>

lemma post_tool_turn_routes_local:
  assumes "isPostToolTurn (orDefault (messages ctx) [])"
    and "first_match (forceCloudPatterns (routing rc)) (lastUserText (orDefault (messages ctx) [])) = None"
    and "first_match (forceLocalPatterns (routing rc)) (lastUserText (orDefault (messages ctx) [])) = None"
    and "preference rc \<noteq> ''cloud-only''"
  shows "target (makeRoutingDecision w ctx rc ms ap ad) = ''local''"
  using assms by (simp add: makeRoutingDecision_def classifyComplexity_def Let_def pick_def)

text \<open>
  Just below the threshold the simple-task rules decide, so the threshold itself is
  where the complex-task rules begin.
\<close>

lemma below_threshold_is_simple:
  assumes "reason_of (classifyComplexity ctx (routing rc)) = ''heuristic''"
    and "\<not> (needsCloud (tags_of (classifyComplexity ctx (routing rc))) \<and> cloudAvailable w rc ms ap ad)"
    and "score_of (classifyComplexity ctx (routing rc)) < complexityThreshold (routing rc)"
    and "preference rc \<noteq> ''local-only''" and "preference rc \<noteq> ''cloud-only''"
  shows "reason (makeRoutingDecision w ctx rc ms ap ad)
           \<in> set [''tool-prefer-local'', ''simple+prefer-cloud'', ''simple+text'', ''simple+local'']"
  using assms by (simp add: makeRoutingDecision_def Let_def pick_def)

section \<open>Properties of the tool simplification\<close>

lemma tool_name_update:
  "tool_name (t\<lparr>description := a, parameters := b, inputSchema := c\<rparr>) = tool_name t"
  by (simp add: tool_name_def split: option.split)

text \<open>
  A second pass over a simplified list changes nothing: its names have schemas, no
  name occurs twice, and the three fields already hold the schema's values.
\<close>

lemma simplify_loop_fixed:
  "set seen' \<subseteq> set seen \<Longrightarrow> simplify_loop (simplify_loop ts seen) seen' = simplify_loop ts seen"
proof (induction ts arbitrary: seen seen')
  case Nil
  then show ?case by simp
next
  case (Cons t ts)
  show ?case
  proof (cases "SIMPLIFIED_TOOL_SCHEMAS (tool_name t)")
    case None
    with Cons show ?thesis by simp
  next
    case (Some schema)
    show ?thesis
    proof (cases "tool_name t \<in> set seen")
      case True
      with Some Cons show ?thesis by simp
    next
      case False
      with Cons.prems have notin: "tool_name t \<notin> set seen'" by blast
      from Cons.prems have sub: "set (tool_name t # seen') \<subseteq> set (tool_name t # seen)" by auto
      from Cons.IH [OF sub] Some False notin show ?thesis
        by (simp add: tool_name_update)
    qed
  qed
qed

lemma simplify_idempotent:
  "simplifyToolsForLocalModel (simplifyToolsForLocalModel ts) = simplifyToolsForLocalModel ts"
  by (simp add: simplifyToolsForLocalModel_def simplify_loop_fixed)

section \<open>Texts without letters\<close>

text \<open>
  Every keyword pattern needs a letter, so on a letterless text no keyword matches
  and the score is made of the two word-count boosts and the tool-heavy discount
  alone.
\<close>

lemma ch_eq_letter: "ch_eq ic p c \<Longrightarrow> is_ascii_letter p \<Longrightarrow> is_ascii_letter c"
  by (auto simp: ch_eq_def is_ascii_letter_def to_upper_def split: if_splits)

lemma lit_pre_letter:
  "lit_pre ic w t \<Longrightarrow> list_ex is_ascii_letter w \<Longrightarrow> list_ex is_ascii_letter t"
  by (induction ic w t rule: lit_pre.induct) (auto dest: ch_eq_letter)

lemma letterless_drop: "letterless s \<Longrightarrow> \<not> list_ex is_ascii_letter (drop i s)"
  by (auto simp: letterless_def list_all_iff list_ex_iff dest: in_set_dropD)

lemma run_needs_letter:
  "needs_letter r \<Longrightarrow> letterless s \<Longrightarrow> run r ic s st = []"
proof (induction r arbitrary: st)
  case (Lit w)
  then show ?case
    using lit_pre_letter [of ic w "drop (fst st) s"] letterless_drop [of s "fst st"] by auto
next
  case (Then r1 r2)
  from Then.prems(1) consider "needs_letter r1" | "needs_letter r2" by auto
  then show ?case
  proof cases
    case 1
    then have "run r1 ic s st = []" using Then.IH(1) Then.prems(2) by blast
    then show ?thesis by simp
  next
    case 2
    then have "\<And>st'. run r2 ic s st' = []" using Then.IH(2) Then.prems(2) by blast
    then show ?thesis by simp
  qed
qed auto

lemma re_test_letterless: "needs_letter r \<Longrightarrow> letterless s \<Longrightarrow> \<not> re_test r ic s"
  by (simp add: re_test_iff run_needs_letter)

lemma keywords_need_letter:
  "list_all (\<lambda>kw. needs_letter (fst kw)) COMPLEX_KEYWORDS"
  "list_all (\<lambda>kw. needs_letter (fst kw)) SIMPLE_KEYWORDS"
  by (simp_all add: COMPLEX_KEYWORDS_def SIMPLE_KEYWORDS_def seq_def alt_def lits_def js_def is_ascii_letter_def)

lemma fold_keyword_step_none:
  "list_all (\<lambda>kw. \<not> re_test (fst kw) True t) kws \<Longrightarrow> fold (keyword_step t) kws acc = acc"
  by (induction kws arbitrary: acc) (simp_all add: keyword_step_def bump_def)

lemma keywords_silent:
  assumes "letterless t"
  shows "fold (keyword_step t) COMPLEX_KEYWORDS acc = acc"
    and "fold (keyword_step t) SIMPLE_KEYWORDS acc = acc"
proof -
  have "list_all (\<lambda>kw. \<not> re_test (fst kw) True t) COMPLEX_KEYWORDS"
    using keywords_need_letter(1) assms by (auto simp: list_all_iff re_test_letterless)
  then show "fold (keyword_step t) COMPLEX_KEYWORDS acc = acc" by (rule fold_keyword_step_none)
  have "list_all (\<lambda>kw. \<not> re_test (fst kw) True t) SIMPLE_KEYWORDS"
    using keywords_need_letter(2) assms by (auto simp: list_all_iff re_test_letterless)
  then show "fold (keyword_step t) SIMPLE_KEYWORDS acc = acc" by (rule fold_keyword_step_none)
qed

lemma heuristic_letterless:
  assumes "letterless t"
  shows "heuristic ms t =
     bump (recentToolCallCount ms 10 > 3) (- fl (10 / 100)) ''tool-heavy-ctx''
       (bump (length (split_ws t) > 300) (fl (15 / 100)) ''very-long-prompt''
         (bump (length (split_ws t) > 100) (fl (15 / 100)) ''long-prompt'' (0, [])))"
  by (simp add: heuristic_def keywords_silent [OF assms] boosts_def bump_def complexTagCount_def is_complex_tag_def)

text \<open>
  The sums that can arise on a letterless text: 0.15 once or twice, then 0.10 taken
  off or not. The largest is \<open>0.15 + 0.15\<close>, which is the double 0.3.
\<close>

lemma letterless_sums:
  "fadd 0 (fl (15 / 100)) = fl (15 / 100)"
  "fadd (fl (15 / 100)) (fl (15 / 100)) = fl (3 / 10)"
  "fadd 0 (- fl (10 / 100)) < 0"
  "fadd (fl (15 / 100)) (- fl (10 / 100)) < fl (3 / 10)"
  "fadd (fl (3 / 10)) (- fl (10 / 100)) < fl (3 / 10)"
  "fl (15 / 100) < fl (3 / 10)"
  "0 < fl (3 / 10)"
  by (simp_all add: fl_eval)

lemma heuristic_letterless_bounds:
  assumes "letterless t"
  shows "fst (heuristic ms t) \<le> fl (3 / 10)" and "\<not> needsCloud (snd (heuristic ms t))"
proof -
  show "\<not> needsCloud (snd (heuristic ms t))"
    by (simp add: heuristic_letterless [OF assms] bump_def needsCloud_def)
  show "fst (heuristic ms t) \<le> fl (3 / 10)"
    using letterless_sums
    by (simp add: heuristic_letterless [OF assms] bump_def)
qed

lemma heuristic_empty: "recentToolCallCount ms 10 \<le> 3 \<Longrightarrow> heuristic ms [] = (0, [])"
  by (simp add: heuristic_letterless letterless_def bump_def)

lemma classify_empty_text:
  "classifyComplexity (conversation [user_says []]) (sample_routing th [] [])
     = \<lparr>score_of = 0, reason_of = ''heuristic'', tags_of = []\<rparr>"
proof -
  have "recentToolCallCount [user_says []] 10 \<le> 3"
    by (simp add: recentToolCallCount_def toolCalls_def user_says_def user_text_def)
  then have h: "heuristic [user_says []] [] = (0, [])" by (rule heuristic_empty)
  have t: "lastUserText [user_says []] = []"
    by (simp add: lastUserText_single js_def)
  have np: "\<not> isPostToolTurn [user_says []]"
    by (simp add: isPostToolTurn_def user_says_def user_text_def)
  show ?thesis
    by (simp add: classifyComplexity_def Let_def conversation_def orDefault_def sample_routing_def
        t np h clamp01_def)
qed

section \<open>Properties of the configuration resolution\<close>

lemma first_match_safeRegex_filter:
  "first_match (map fst (map (safeRegex compile) (filter (compiles compile) ps))) t
     = first_match (map fst (map (safeRegex compile) ps)) t"
  by (induction ps) (auto simp: safeRegex_def compiles_def split: sum.splits)

lemma warnings_safeRegex:
  "concat (map snd (map (safeRegex compile) ps))
     = map invalid_pattern_warning (filter (\<lambda>p. \<not> compiles compile p) ps)"
  by (induction ps) (auto simp: safeRegex_def compiles_def split: sum.splits)

lemma classify_patterns_cong:
  assumes "first_match (forceCloudPatterns r) (lastUserText (orDefault (messages ctx) []))
             = first_match (forceCloudPatterns r') (lastUserText (orDefault (messages ctx) []))"
    and "first_match (forceLocalPatterns r) (lastUserText (orDefault (messages ctx) []))
             = first_match (forceLocalPatterns r') (lastUserText (orDefault (messages ctx) []))"
  shows "classifyComplexity ctx r = classifyComplexity ctx r'"
  unfolding classifyComplexity_def Let_def assms by (rule refl)

section \<open>Properties of the identity preamble\<close>

lemma join_snoc:
  "join sep (map Some (xs @ [n])) = concat (map (\<lambda>x. x @ sep) xs) @ n"
proof (induction xs)
  case Nil
  then show ?case by simp
next
  case (Cons x xs)
  then show ?case by (cases xs) simp_all
qed

lemma join_first_last:
  "join sep (map Some (a # xs @ [n])) = a @ sep @ concat (map (\<lambda>x. x @ sep) xs) @ n"
  using join_snoc [of sep "a # xs" n] by simp

lemma js_append: "js (a @ b) = js a @ js b"
  by (simp add: js_def)

lemma closing_sentence:
  "js ''Never say you are Gemma, LLaMA, or any other model. You are only '' @ js ''this assistant'' @ js ''.''
      = js ''Never say you are Gemma, LLaMA, or any other model. You are only this assistant.''"
  unfolding js_append [symmetric] by simp

section \<open>The claims\<close>

text \<open>
  C1. Cloud session affinity: after a tool result that follows an assistant message
  of a recognised cloud provider, the next call should route to cloud. The test suite
  of the repository asserts it (its first affinity case is the input below), but
  \<open>makeRoutingDecision\<close> never reads the provider of a message: with cloud available
  and preference prefer-local, the decision at that input is local, with reason
  post-tool-turn.
\<close>

theorem C1_cloud_affinity_not_implemented:
  "role (last [user_says ''what is the latest headlines from Google news'',
               assistant_calls ''anthropic'' ''web_search'',
               tool_result ''Fox News - Breaking News...'']) = ''toolResult''
   \<and> provider (assistant_calls ''anthropic'' ''web_search'') = Some ''anthropic''
   \<and> cloudAvailable sample_world (sample_config ''prefer-local'' (sample_routing (1 / 2) [] [])) sample_models [] None
   \<and> target (makeRoutingDecision sample_world
        (conversation [user_says ''what is the latest headlines from Google news'',
                       assistant_calls ''anthropic'' ''web_search'',
                       tool_result ''Fox News - Breaking News...''])
        (sample_config ''prefer-local'' (sample_routing (1 / 2) [] [])) sample_models [] None) = ''local''
   \<and> reason (makeRoutingDecision sample_world
        (conversation [user_says ''what is the latest headlines from Google news'',
                       assistant_calls ''anthropic'' ''web_search'',
                       tool_result ''Fox News - Breaking News...''])
        (sample_config ''prefer-local'' (sample_routing (1 / 2) [] [])) sample_models [] None) = ''post-tool-turn''"
proof -
  let ?ms = "[user_says ''what is the latest headlines from Google news'',
              assistant_calls ''anthropic'' ''web_search'',
              tool_result ''Fox News - Breaking News...'']"
  let ?rc = "sample_config ''prefer-local'' (sample_routing (1 / 2) [] [])"
  have c: "classifyComplexity (conversation ?ms) (sample_routing (1 / 2) [] [])
      = \<lparr>score_of = 0, reason_of = ''post-tool-turn'', tags_of = [''post-tool'']\<rparr>"
    by (simp add: classifyComplexity_def Let_def conversation_def orDefault_def
        sample_routing_def isPostToolTurn_def tool_result_def)
  have "target (makeRoutingDecision sample_world (conversation ?ms) ?rc sample_models [] None) = ''local''"
    and "reason (makeRoutingDecision sample_world (conversation ?ms) ?rc sample_models [] None) = ''post-tool-turn''"
    by (simp_all add: makeRoutingDecision_def Let_def pick_def sample_config_def c)
  moreover have "role (last ?ms) = ''toolResult''"
    by (simp add: tool_result_def)
  moreover have "provider (assistant_calls ''anthropic'' ''web_search'') = Some ''anthropic''"
    by (simp add: assistant_calls_def)
  ultimately show ?thesis
    using sample_cloud_available by blast
qed




text \<open>
  C3. For every context and every routing configuration, the score of the decision
  that \<open>makeRoutingDecision\<close> returns is the score that \<open>classifyComplexity\<close> returns,
  and it lies in the closed interval from 0 to 1. (The clamp
  \<open>Math.max(0, Math.min(1, score))\<close> bounds whatever the sums of doubles come to.)
\<close>

theorem C3_score_in_unit_interval:
  "score (makeRoutingDecision w ctx rc ms ap ad) = score_of (classifyComplexity ctx (routing rc))
   \<and> 0 \<le> score (makeRoutingDecision w ctx rc ms ap ad)
   \<and> score (makeRoutingDecision w ctx rc ms ap ad) \<le> 1
   \<and> 0 \<le> score_of (classifyComplexity ctx rt)
   \<and> score_of (classifyComplexity ctx rt) \<le> 1"
  using classify_score_bounds [of ctx rt] classify_score_bounds [of ctx "routing rc"]
  by (simp add: decision_score)

theorem C3_witness:
  "0 \<le> score (makeRoutingDecision sample_world (conversation [user_says ''yes''])
                 (sample_config ''prefer-local'' (sample_routing (1 / 2) [] [])) sample_models [] None)
   \<and> score (makeRoutingDecision sample_world (conversation [user_says ''yes''])
                 (sample_config ''prefer-local'' (sample_routing (1 / 2) [] [])) sample_models [] None) \<le> 1"
  using C3_score_in_unit_interval [of sample_world "conversation [user_says ''yes'']"
      "sample_config ''prefer-local'' (sample_routing (1 / 2) [] [])" sample_models "[]" None]
  by blast



text \<open>
  C7. Context adaptation is idempotent for every target: adapting an adapted context
  to the same target, under the same two local system prompts, returns it unchanged.
\<close>

theorem C7_adaptation_idempotent:
  "adaptContext p q (adaptContext p q ctx tg) tg = adaptContext p q ctx tg"
  by (simp add: adaptContext_def orDefault_def simplify_idempotent)

text \<open>
  C8. A pattern string that does not compile never makes configuration resolution
  fail: a resolved configuration is returned, one warning is logged for each such
  string, and \<open>classifyComplexity\<close> answers under it as it does under the
  configuration resolved without those strings.
\<close>

theorem C8_invalid_patterns_are_ignored:
  assumes "hybridRouter cfg = Some rc" and "raw_enabled rc"
  shows "\<exists>r r'. fst (resolveHybridRouterConfig compile cfg) = Some r
           \<and> fst (resolveHybridRouterConfig compile (drop_invalid compile cfg)) = Some r'
           \<and> classifyComplexity ctx (routing r) = classifyComplexity ctx (routing r')
           \<and> snd (resolveHybridRouterConfig compile cfg)
               = map invalid_pattern_warning
                     (filter (\<lambda>p. \<not> compiles compile p) (raw_patterns cfg))"
proof -
  let ?fc = "orDefault (Option.bind (raw_routing rc) raw_forceCloudPatterns) []"
  let ?fl = "orDefault (Option.bind (raw_routing rc) raw_forceLocalPatterns) []"
  obtain r where r: "fst (resolveHybridRouterConfig compile cfg) = Some r"
    and rc: "forceCloudPatterns (routing r) = map fst (map (safeRegex compile) ?fc)"
    and rl: "forceLocalPatterns (routing r) = map fst (map (safeRegex compile) ?fl)"
    using assms by (simp add: resolveHybridRouterConfig_def Let_def)
  obtain r' where r': "fst (resolveHybridRouterConfig compile (drop_invalid compile cfg)) = Some r'"
    and rc': "forceCloudPatterns (routing r') = map fst (map (safeRegex compile) (filter (compiles compile) ?fc))"
    and rl': "forceLocalPatterns (routing r') = map fst (map (safeRegex compile) (filter (compiles compile) ?fl))"
    using assms
    by (cases "raw_routing rc")
       (auto simp: resolveHybridRouterConfig_def drop_invalid_def Let_def orDefault_def
             split: option.splits)
  have "classifyComplexity ctx (routing r) = classifyComplexity ctx (routing r')"
    by (rule classify_patterns_cong) (simp_all only: rc rl rc' rl' first_match_safeRegex_filter)
  moreover have "snd (resolveHybridRouterConfig compile cfg)
      = map invalid_pattern_warning
            (filter (\<lambda>p. \<not> compiles compile p) (raw_patterns cfg))"
  proof -
    have "snd (resolveHybridRouterConfig compile cfg)
        = concat (map snd (map (safeRegex compile) ?fc)) @ concat (map snd (map (safeRegex compile) ?fl))"
      using assms by (simp add: resolveHybridRouterConfig_def Let_def)
    also have "\<dots> = map invalid_pattern_warning (filter (\<lambda>p. \<not> compiles compile p) ?fc)
        @ map invalid_pattern_warning (filter (\<lambda>p. \<not> compiles compile p) ?fl)"
      by (simp only: warnings_safeRegex)
    also have "\<dots> = map invalid_pattern_warning (filter (\<lambda>p. \<not> compiles compile p) (raw_patterns cfg))"
      using assms by (simp add: raw_patterns_def)
    finally show ?thesis .
  qed
  ultimately show ?thesis using r r' by blast
qed

theorem C8_witness:
  "hybridRouter (sample_raw [''(unclosed'', ''explain.*in detail''] [''read.*file'']) \<noteq> None
   \<and> raw_enabled (the (hybridRouter (sample_raw [''(unclosed'', ''explain.*in detail''] [''read.*file''])))
   \<and> \<not> compiles sample_compile ''(unclosed''
   \<and> (\<exists>r r'. fst (resolveHybridRouterConfig sample_compile (sample_raw [''(unclosed'', ''explain.*in detail''] [''read.*file''])) = Some r
           \<and> fst (resolveHybridRouterConfig sample_compile
                 (drop_invalid sample_compile (sample_raw [''(unclosed'', ''explain.*in detail''] [''read.*file'']))) = Some r'
           \<and> classifyComplexity (conversation [user_says ''Explain in detail how closures work'']) (routing r)
               = classifyComplexity (conversation [user_says ''Explain in detail how closures work'']) (routing r')
           \<and> snd (resolveHybridRouterConfig sample_compile (sample_raw [''(unclosed'', ''explain.*in detail''] [''read.*file'']))
               = [''invalid regex pattern ignored: (unclosed''])"
proof -
  let ?cfg = "sample_raw [''(unclosed'', ''explain.*in detail''] [''read.*file'']"
  have h1: "hybridRouter ?cfg = Some (the (hybridRouter ?cfg))"
    by (simp add: sample_raw_def)
  have h2: "raw_enabled (the (hybridRouter ?cfg))"
    by (simp add: sample_raw_def)
  have w: "map invalid_pattern_warning
             (filter (\<lambda>p. \<not> compiles sample_compile p) (raw_patterns ?cfg))
           = [''invalid regex pattern ignored: (unclosed'']"
    by (simp add: raw_patterns_def sample_raw_def compiles_def sample_compile_def orDefault_def
        invalid_pattern_warning_def)
  have c: "\<not> compiles sample_compile ''(unclosed''"
    by (simp add: compiles_def sample_compile_def)
  from C8_invalid_patterns_are_ignored [OF h1 h2, of sample_compile
      "conversation [user_says ''Explain in detail how closures work'']"] h1 h2 c
  show ?thesis unfolding w by auto
qed

end
